theory Spec2Isabelle
  imports Main
begin

section \<open>The conversion job subsystem of the backend\<close>

text \<open>
  The repository holds two versions of the same Express server: \<^verbatim>\<open>src/server.js\<close>
  (header \<^verbatim>\<open>// backend/server.js\<close>) and \<^verbatim>\<open>src/unnamed/part_000\<close> (header
  \<^verbatim>\<open>// server.js\<close>). Their conversion handlers differ in one place that matters here:
  where the expiry timer is armed. Both are embedded; definitions that exist only in the
  second version carry the suffix \<open>_p0\<close>.

  Strings are lists of 8-bit characters (code units below 256). Request fields are taken
  as strings.
\<close>

subsection \<open>Strings\<close>

text \<open>\<^verbatim>\<open>line.startsWith(p)\<close>\<close>

definition startsWith :: "string \<Rightarrow> string \<Rightarrow> bool" where
  "startsWith s p = (take (length p) s = p)"

text \<open>\<^verbatim>\<open>s.split(d)\<close> for a one-character separator: never empty, \<^verbatim>\<open>"".split("=")\<close> is \<^verbatim>\<open>[""]\<close>.\<close>

fun split_on :: "char \<Rightarrow> string \<Rightarrow> string list" where
  "split_on d [] = [[]]"
| "split_on d (c # cs) =
     (if c = d then [] # split_on d cs
      else (case split_on d cs of [] \<Rightarrow> [[c]] | w # ws \<Rightarrow> (c # w) # ws))"

text \<open>Reading an array element: out of range is JavaScript's \<^verbatim>\<open>undefined\<close>, here \<open>None\<close>.\<close>

fun element :: "'a list \<Rightarrow> nat \<Rightarrow> 'a option" where
  "element [] i = None"
| "element (x # xs) 0 = Some x"
| "element (x # xs) (Suc i) = element xs i"

text \<open>
  \<^verbatim>\<open>chunk.toString().split(/\r?\n/)\<close>: the text is cut at every line feed, and a carriage
  return standing right before that line feed belongs to the separator.
\<close>

definition chop_cr :: "string \<Rightarrow> string" where
  "chop_cr w = (if w \<noteq> [] \<and> last w = CHR 0x0D then butlast w else w)"

fun chop_crs :: "string list \<Rightarrow> string list" where
  "chop_crs [] = []"
| "chop_crs [w] = [w]"
| "chop_crs (w # v # ws) = chop_cr w # chop_crs (v # ws)"

definition split_lines :: "string \<Rightarrow> string list" where
  "split_lines chunk = chop_crs (split_on (CHR 0x0A) chunk)"

text \<open>
  The character class \<^verbatim>\<open>[^a-z0-9]\<close> under the flags \<^verbatim>\<open>gi\<close>: without the \<^verbatim>\<open>u\<close> flag, case
  folding never maps a character outside ASCII onto an ASCII letter, so the class
  \<^verbatim>\<open>[a-z0-9]\<close> with \<^verbatim>\<open>i\<close> is exactly the ASCII letters and digits.
\<close>

definition is_alnum :: "char \<Rightarrow> bool" where
  "is_alnum c = (let n = (of_char c :: nat) in
     (97 \<le> n \<and> n \<le> 122) \<or> (65 \<le> n \<and> n \<le> 90) \<or> (48 \<le> n \<and> n \<le> 57))"

text \<open>
  \<^verbatim>\<open>toLowerCase()\<close>, on the ASCII letters. Every use in the source follows the
  replacement above, after which the string holds ASCII letters, digits and \<open>_\<close> only.
\<close>

definition lower_char :: "char \<Rightarrow> char" where
  "lower_char c = (let n = (of_char c :: nat) in
     if 65 \<le> n \<and> n \<le> 90 then char_of (n + 32) else c)"

definition toLowerCase :: "string \<Rightarrow> string" where
  "toLowerCase s = map lower_char s"

text \<open>\<^verbatim>\<open>s.replace(/[^a-z0-9]/gi, '_')\<close>: the pattern has no quantifier, each match is one character.\<close>

definition replace_non_alnum :: "string \<Rightarrow> string" where
  "replace_non_alnum s = map (\<lambda>c. if is_alnum c then c else CHR ''_'') s"

text \<open>\<^verbatim>\<open>s.replace(/_/g, ' ')\<close>\<close>

definition replace_underscores :: "string \<Rightarrow> string" where
  "replace_underscores s = map (\<lambda>c. if c = CHR ''_'' then CHR '' '' else c) s"

subsection \<open>Numbers\<close>

text \<open>
  A JavaScript number as far as the handlers use one: \<open>NaN\<close>, or an integer. Doubles hold
  every integer below \<open>2 ^ 53\<close> in magnitude exactly; beyond that \<open>Num\<close> idealises.
\<close>

datatype jsnum = NaN | Num int

text \<open>\<^verbatim>\<open>StrWhiteSpaceChar\<close>, the members below 256.\<close>

definition is_ws :: "char \<Rightarrow> bool" where
  "is_ws c = ((of_char c :: nat) \<in> {9, 10, 11, 12, 13, 32, 160})"

definition digit_val :: "char \<Rightarrow> nat option" where
  "digit_val c = (let n = (of_char c :: nat) in
     if 48 \<le> n \<and> n \<le> 57 then Some (n - 48)
     else if 97 \<le> n \<and> n \<le> 122 then Some (n - 87)
     else if 65 \<le> n \<and> n \<le> 90 then Some (n - 55)
     else None)"

definition is_digit :: "nat \<Rightarrow> char \<Rightarrow> bool" where
  "is_digit radix c = (case digit_val c of None \<Rightarrow> False | Some d \<Rightarrow> d < radix)"

definition digits_val :: "nat \<Rightarrow> string \<Rightarrow> int" where
  "digits_val radix ds = foldl (\<lambda>a c. a * int radix + int (case digit_val c of None \<Rightarrow> 0 | Some d \<Rightarrow> d)) 0 ds"

text \<open>
  \<^verbatim>\<open>parseInt(str)\<close> with no radix: leading white space is skipped, one sign is read, a
  prefix \<^verbatim>\<open>0x\<close> or \<^verbatim>\<open>0X\<close> selects radix 16, the longest run of digits is the value, and no
  digit at all gives \<open>NaN\<close>.
\<close>

definition parseInt :: "string \<Rightarrow> jsnum" where
  "parseInt str =
     (let s = dropWhile is_ws str;
          sign = (case s of c # r \<Rightarrow> if c = CHR ''-'' then (-1::int) else 1 | [] \<Rightarrow> 1);
          s1 = (case s of c # r \<Rightarrow> if c = CHR ''-'' \<or> c = CHR ''+'' then r else s | [] \<Rightarrow> s);
          hex = (take 2 s1 = ''0x'' \<or> take 2 s1 = ''0X'');
          radix = (if hex then 16 else 10);
          s2 = (if hex then drop 2 s1 else s1);
          ds = takeWhile (is_digit radix) s2
      in if ds = [] then NaN else Num (sign * digits_val radix ds))"

text \<open>
  \<^verbatim>\<open>Math.round((ms / 60000) * 100)\<close>. \<^verbatim>\<open>Math.round\<close> takes the nearest integer, a half going up.
  Away from a half the double product rounds as the exact quotient \<open>ms * 100 / 60000\<close>
  does (the quotient is then at least \<open>1 / 600\<close> from a half, the two roundings of the
  product move it by less for \<open>ms\<close> below \<open>2 ^ 52\<close> in magnitude, and a larger positive
  \<open>ms\<close> is capped at 100 afterwards). Where the exact quotient is a half, the double
  product may fall on it or just beside it (\<open>300\<close> gives \<open>0.5\<close>, \<open>8700\<close> gives
  \<open>14.499999999999998\<close>); which way it goes is the parameter \<open>half_up\<close>.
\<close>

definition round_pct :: "(int \<Rightarrow> bool) \<Rightarrow> int \<Rightarrow> int" where
  "round_pct half_up ms =
     (let q = (ms * 100) div 60000; r = (ms * 100) mod 60000
      in if r < 30000 then q
         else if 30000 < r then q + 1
         else if half_up ms then q + 1 else q)"

text \<open>\<^verbatim>\<open>Math.min(100, Math.round((ms / 60000) * 100))\<close>; \<open>NaN\<close> goes through both.\<close>

fun estimate :: "(int \<Rightarrow> bool) \<Rightarrow> jsnum \<Rightarrow> jsnum" where
  "estimate half_up NaN = NaN"
| "estimate half_up (Num ms) = Num (min 100 (round_pct half_up ms))"

text \<open>\<^verbatim>\<open>job.progress >= 100\<close>: false on \<open>NaN\<close>.\<close>

fun ge100 :: "jsnum \<Rightarrow> bool" where
  "ge100 NaN = False"
| "ge100 (Num n) = (100 \<le> n)"

subsection \<open>The job registry, the disk and the pending timers\<close>

text \<open>An entry of \<^verbatim>\<open>JOBS\<close>: \<^verbatim>\<open>{ progress, path, done, ext, name }\<close>.\<close>

record job_entry =
  job_progress :: jsnum
  job_path :: string
  job_done :: bool
  job_ext :: string
  job_name :: string

text \<open>A callback handed to \<^verbatim>\<open>setTimeout\<close>, with the variables it closes over and its delay in milliseconds.\<close>

record timer =
  timer_jobId :: string
  timer_outFile :: string
  timer_tempInput :: string
  timer_delay :: nat

text \<open>
  The state the handlers share: the object \<^verbatim>\<open>JOBS\<close>, the paths that exist on disk, the
  timers armed and not yet fired, and the argument lists of the \<^verbatim>\<open>ffmpeg\<close> processes spawned.
\<close>

record state =
  JOBS :: "string \<rightharpoonup> job_entry"
  files :: "string set"
  timers :: "timer list"
  spawned :: "string list list"

definition init :: state where
  "init = \<lparr>JOBS = Map.empty, files = {}, timers = [], spawned = []\<rparr>"

text \<open>The body of a conversion request: \<^verbatim>\<open>{ id, format, type }\<close>.\<close>

record body =
  req_id :: string
  req_format :: string
  req_type :: string

datatype response =
  JobStarted string
  | Progress jsnum bool
  | Attachment string string
  | Error nat string

datatype js_error = TypeError

text \<open>How the external downloader ended; on failure, whether it left a file at the path it was given.\<close>

datatype fetch_result = FetchOk | FetchFailed bool

text \<open>
  How a transfer started by the download handler is over: the read stream reached the end
  of the file, the read stream failed, or the client closed the connection first.
\<close>

datatype stream_end = StreamFinished | StreamFailed | ClientAborted

definition VALID_AUDIO_FORMATS :: "string list" where
  "VALID_AUDIO_FORMATS = [''mp3'', ''aac'', ''m4a'', ''opus'', ''wav'', ''flac'']"

definition VALID_VIDEO_FORMATS :: "string list" where
  "VALID_VIDEO_FORMATS = [''mp4'', ''mkv'', ''webm'']"

definition formatAliases :: "string \<rightharpoonup> string" where
  "formatAliases = map_of
     [(''360p'', ''mp4''), (''480p'', ''mp4''), (''720p'', ''mp4''), (''1080p'', ''mp4'')]"

text \<open>\<^verbatim>\<open>formatAliases[inputFormat] || inputFormat\<close>\<close>

definition resolve_format :: "string \<Rightarrow> string" where
  "resolve_format inputFormat =
     (case formatAliases inputFormat of Some a \<Rightarrow> a | None \<Rightarrow> inputFormat)"

definition formatList :: "string \<Rightarrow> string list" where
  "formatList type = (if type = ''audio'' then VALID_AUDIO_FORMATS else VALID_VIDEO_FORMATS)"

definition outputExt :: "string \<Rightarrow> string \<Rightarrow> string" where
  "outputExt type format = (if type = ''audio'' then format else ''mp4'')"

text \<open>\<^verbatim>\<open>title.replace(/[^a-z0-9]/gi, '_').toLowerCase()\<close> with \<^verbatim>\<open>title = `yt-${id}`\<close>\<close>

definition baseName :: "string \<Rightarrow> string" where
  "baseName ident = toLowerCase (replace_non_alnum (''yt-'' @ ident))"

text \<open>
  \<^verbatim>\<open>path.join(__dirname, file)\<close> for a file name that holds no separator; \<open>dirname\<close> is the
  directory of the script.
\<close>

definition path_join :: "string \<Rightarrow> string \<Rightarrow> string" where
  "path_join dirname file = dirname @ ''/'' @ file"

definition tempInput :: "string \<Rightarrow> string \<Rightarrow> string" where
  "tempInput dirname jobId = path_join dirname (''temp_'' @ jobId @ ''_input.mkv'')"

definition outFile :: "string \<Rightarrow> string \<Rightarrow> string \<Rightarrow> string" where
  "outFile dirname jobId ext = path_join dirname (''temp_'' @ jobId @ ''.'' @ ext)"

definition ffmpegArgs :: "string \<Rightarrow> string \<Rightarrow> string \<Rightarrow> string \<Rightarrow> string list" where
  "ffmpegArgs type format tin out =
     (if type = ''audio''
      then [''-i'', tin, ''-f'', format, ''-vn'', ''-ab'', ''192k'', ''-progress'', ''pipe:2'', out]
      else [''-i'', tin, ''-f'', ''mp4'', ''-c:v'', ''libx264'', ''-preset'', ''fast'', ''-crf'', ''23'',
            ''-c:a'', ''aac'', ''-b:a'', ''192k'', ''-movflags'', ''+faststart'',
            ''-progress'', ''pipe:2'', out])"

text \<open>\<^verbatim>\<open>10 * 60 * 1000\<close>\<close>

definition TTL :: nat where
  "TTL = 10 * 60 * 1000"

definition new_job :: "string \<Rightarrow> string \<Rightarrow> body \<Rightarrow> job_entry" where
  "new_job dirname jobId b =
     (let ext = outputExt (req_type b) (resolve_format (req_format b))
      in \<lparr>job_progress = Num 0, job_path = outFile dirname jobId ext, job_done = False,
          job_ext = ext, job_name = baseName (req_id b) @ ''.'' @ ext\<rparr>)"

definition new_timer :: "string \<Rightarrow> string \<Rightarrow> string \<Rightarrow> timer" where
  "new_timer jobId out tin =
     \<lparr>timer_jobId = jobId, timer_outFile = out, timer_tempInput = tin, timer_delay = TTL\<rparr>"

text \<open>The variables of the handler that are live across \<^verbatim>\<open>await\<close>.\<close>

record pending =
  p_jobId :: string
  p_type :: string
  p_format :: string
  p_tempInput :: string
  p_outFile :: string

definition new_pending :: "string \<Rightarrow> string \<Rightarrow> body \<Rightarrow> pending" where
  "new_pending dirname jobId b =
     (let format = resolve_format (req_format b)
      in \<lparr>p_jobId = jobId, p_type = req_type b, p_format = format,
          p_tempInput = tempInput dirname jobId,
          p_outFile = outFile dirname jobId (outputExt (req_type b) format)\<rparr>)"

subsection \<open>\<^verbatim>\<open>POST /api/convert/start\<close>\<close>

text \<open>
  \<^verbatim>\<open>src/server.js\<close>, from the top of the handler to the \<^verbatim>\<open>await\<close>: the format check, the
  registry entry, the timer. \<open>jobId\<close> is what \<^verbatim>\<open>uuidv4()\<close> returns.
\<close>

definition convert_begin :: "string \<Rightarrow> string \<Rightarrow> body \<Rightarrow> state \<Rightarrow> (response + pending) \<times> state" where
  "convert_begin dirname jobId b s =
     (let format = resolve_format (req_format b) in
      if format \<notin> set (formatList (req_type b))
      then (Inl (Error 400 ''Unsupported output format''), s)
      else
        (let p = new_pending dirname jobId b;
             s1 = s\<lparr>JOBS := (JOBS s)(jobId \<mapsto> new_job dirname jobId b)\<rparr>;
             s2 = s1\<lparr>timers := timers s1 @ [new_timer jobId (p_outFile p) (p_tempInput p)]\<rparr>
         in (Inr p, s2)))"

text \<open>
  \<^verbatim>\<open>src/server.js\<close>, after the \<^verbatim>\<open>await\<close>: a rejected promise goes to \<^verbatim>\<open>catch\<close>; otherwise
  \<^verbatim>\<open>ffmpeg\<close> is spawned and the job id is returned.
\<close>

fun convert_resume :: "fetch_result \<Rightarrow> pending \<Rightarrow> state \<Rightarrow> response \<times> state" where
  "convert_resume (FetchFailed left) p s = (Error 500 ''Failed to convert video'', s)"
| "convert_resume FetchOk p s =
     (JobStarted (p_jobId p),
      s\<lparr>spawned := spawned s @ [ffmpegArgs (p_type p) (p_format p) (p_tempInput p) (p_outFile p)]\<rparr>)"

text \<open>\<^verbatim>\<open>src/unnamed/part_000\<close>: the same handler, with \<^verbatim>\<open>setTimeout\<close> moved behind the spawn, inside \<^verbatim>\<open>try\<close>.\<close>

definition convert_begin_p0 :: "string \<Rightarrow> string \<Rightarrow> body \<Rightarrow> state \<Rightarrow> (response + pending) \<times> state" where
  "convert_begin_p0 dirname jobId b s =
     (let format = resolve_format (req_format b) in
      if format \<notin> set (formatList (req_type b))
      then (Inl (Error 400 ''Unsupported output format''), s)
      else
        (let p = new_pending dirname jobId b;
             s1 = s\<lparr>JOBS := (JOBS s)(jobId \<mapsto> new_job dirname jobId b)\<rparr>
         in (Inr p, s1)))"

fun convert_resume_p0 :: "fetch_result \<Rightarrow> pending \<Rightarrow> state \<Rightarrow> response \<times> state" where
  "convert_resume_p0 (FetchFailed left) p s = (Error 500 ''Failed to convert video'', s)"
| "convert_resume_p0 FetchOk p s =
     (let s1 = s\<lparr>spawned := spawned s @ [ffmpegArgs (p_type p) (p_format p) (p_tempInput p) (p_outFile p)]\<rparr>;
          s2 = s1\<lparr>timers := timers s1 @ [new_timer (p_jobId p) (p_outFile p) (p_tempInput p)]\<rparr>
      in (JobStarted (p_jobId p), s2))"

text \<open>What the downloader does to the disk while the handler waits.\<close>

fun downloader :: "fetch_result \<Rightarrow> string \<Rightarrow> state \<Rightarrow> state" where
  "downloader FetchOk tin s = s\<lparr>files := insert tin (files s)\<rparr>"
| "downloader (FetchFailed left) tin s = (if left then s\<lparr>files := insert tin (files s)\<rparr> else s)"

text \<open>One request from its arrival to its response, with nothing but the downloader running in between.\<close>

definition convert_start :: "string \<Rightarrow> string \<Rightarrow> fetch_result \<Rightarrow> body \<Rightarrow> state \<Rightarrow> response \<times> state" where
  "convert_start dirname jobId fr b s =
     (case convert_begin dirname jobId b s of
        (Inl r, s1) \<Rightarrow> (r, s1)
      | (Inr p, s1) \<Rightarrow> convert_resume fr p (downloader fr (p_tempInput p) s1))"

definition convert_start_p0 :: "string \<Rightarrow> string \<Rightarrow> fetch_result \<Rightarrow> body \<Rightarrow> state \<Rightarrow> response \<times> state" where
  "convert_start_p0 dirname jobId fr b s =
     (case convert_begin_p0 dirname jobId b s of
        (Inl r, s1) \<Rightarrow> (r, s1)
      | (Inr p, s1) \<Rightarrow> convert_resume_p0 fr p (downloader fr (p_tempInput p) s1))"

subsection \<open>The callbacks of a job\<close>

text \<open>\<^verbatim>\<open>if (fs.existsSync(p)) fs.unlinkSync(p)\<close>\<close>

definition unlink_if_exists :: "string \<Rightarrow> string set \<Rightarrow> string set" where
  "unlink_if_exists p fs = (if p \<in> fs then fs - {p} else fs)"

text \<open>\<^verbatim>\<open>fs.unlink(p, () => {})\<close>: the error of a missing file is dropped.\<close>

definition unlink :: "string \<Rightarrow> string set \<Rightarrow> string set" where
  "unlink p fs = fs - {p}"

text \<open>The timer's callback, in both versions.\<close>

definition timer_fire :: "timer \<Rightarrow> state \<Rightarrow> state" where
  "timer_fire t s =
     s\<lparr>files := unlink_if_exists (timer_tempInput t) (unlink_if_exists (timer_outFile t) (files s)),
       JOBS := (JOBS s)(timer_jobId t := None),
       timers := remove1 t (timers s)\<rparr>"

text \<open>The body of \<^verbatim>\<open>lines.forEach\<close>, on the entry \<^verbatim>\<open>JOBS[jobId]\<close>.\<close>

definition line_step :: "(int \<Rightarrow> bool) \<Rightarrow> job_entry \<Rightarrow> string \<Rightarrow> job_entry" where
  "line_step half_up j line =
     (let j1 = (if startsWith line ''out_time_ms=''
                then j\<lparr>job_progress := estimate half_up
                       (case element (split_on (CHR ''='') line) 1 of
                          None \<Rightarrow> NaN | Some t \<Rightarrow> parseInt t)\<rparr>
                else j)
      in if startsWith line ''progress=end''
         then j1\<lparr>job_progress := Num 100, job_done := True\<rparr>
         else j1)"

definition touches :: "string \<Rightarrow> bool" where
  "touches line = (startsWith line ''out_time_ms='' \<or> startsWith line ''progress=end'')"

text \<open>
  \<^verbatim>\<open>ffmpeg.stdio[2].on('data', ...)\<close>: with no entry under \<open>jobId\<close>, the first recognised line
  throws on \<^verbatim>\<open>JOBS[jobId].progress = ...\<close>, before anything is written.
\<close>

definition on_data :: "(int \<Rightarrow> bool) \<Rightarrow> string \<Rightarrow> string \<Rightarrow> state \<Rightarrow> js_error + state" where
  "on_data half_up jobId chunk s =
     (let lines = split_lines chunk in
      case JOBS s jobId of
        None \<Rightarrow> if list_ex touches lines then Inl TypeError else Inr s
      | Some j \<Rightarrow> Inr (s\<lparr>JOBS := (JOBS s)(jobId \<mapsto> foldl (line_step half_up) j lines)\<rparr>))"

text \<open>\<^verbatim>\<open>ffmpeg.on('exit', ...)\<close>: the arguments of the event (exit code, signal) are not read.\<close>

definition on_exit :: "int option \<Rightarrow> string \<Rightarrow> string \<Rightarrow> state \<Rightarrow> js_error + state" where
  "on_exit code jobId tin s =
     (case JOBS s jobId of
        None \<Rightarrow> Inl TypeError
      | Some j \<Rightarrow> Inr (s\<lparr>JOBS := (JOBS s)(jobId \<mapsto> j\<lparr>job_progress := Num 100, job_done := True\<rparr>),
                        files := unlink tin (files s)\<rparr>))"

subsection \<open>\<^verbatim>\<open>GET /api/convert/download\<close> and \<^verbatim>\<open>GET /api/progress\<close>\<close>

definition download_filename :: "string \<Rightarrow> job_entry \<Rightarrow> string" where
  "download_filename ident j =
     (let replaced = replace_underscores (job_name j);
          rawTitle = (if replaced = [] then ''converted_'' @ ident else replaced);
          safeTitle = toLowerCase (replace_non_alnum rawTitle)
      in safeTitle @ ''.'' @ (if job_ext j = [] then ''mp4'' else job_ext j))"

text \<open>The request: 404, or the headers are set and the file at \<^verbatim>\<open>job.path\<close> starts to stream.\<close>

definition download :: "string \<Rightarrow> state \<Rightarrow> response" where
  "download ident s =
     (case JOBS s ident of
        None \<Rightarrow> Error 404 ''Download not ready''
      | Some j \<Rightarrow>
          if job_path j \<notin> files s then Error 404 ''Download not ready''
          else Attachment (download_filename ident j) (job_path j))"

text \<open>
  \<^verbatim>\<open>stream.on('close', ...)\<close>: the callback unlinks \<^verbatim>\<open>job.path\<close> and deletes \<^verbatim>\<open>JOBS[id]\<close>. The
  other callback, \<^verbatim>\<open>stream.on('error', ...)\<close>, only answers with status 500.
\<close>

definition stream_close :: "string \<Rightarrow> string \<Rightarrow> state \<Rightarrow> state" where
  "stream_close ident p s = s\<lparr>files := unlink p (files s), JOBS := (JOBS s)(ident := None)\<rparr>"

text \<open>
  Which callback runs when a transfer is over. A read stream closes itself after its end
  and after an error of its own, so \<^verbatim>\<open>'close'\<close> follows both. When the client closes the
  connection, \<^verbatim>\<open>stream.pipe(res)\<close> only unpipes the read stream: it neither ends nor closes,
  and no callback of the handler runs.
\<close>

fun transfer_end :: "stream_end \<Rightarrow> string \<Rightarrow> string \<Rightarrow> state \<Rightarrow> state" where
  "transfer_end StreamFinished ident p s = stream_close ident p s"
| "transfer_end StreamFailed ident p s = stream_close ident p s"
| "transfer_end ClientAborted ident p s = s"

definition progress :: "string \<Rightarrow> state \<Rightarrow> response" where
  "progress ident s =
     (case JOBS s ident of
        None \<Rightarrow> Error 404 ''Job not found''
      | Some j \<Rightarrow> Progress (job_progress j) (ge100 (job_progress j) \<and> job_done j \<and> job_path j \<in> files s))"

subsection \<open>The states the server can be in\<close>

text \<open>
  Started empty, the server moves by the two halves of a conversion request (of either
  version), by the callbacks above, and by an external tool writing a file.
\<close>

inductive reachable :: "state \<Rightarrow> bool" where
  r_init: "reachable init"
| r_begin: "reachable s \<Longrightarrow> convert_begin dirname jobId b s = (x, s') \<Longrightarrow> reachable s'"
| r_resume: "reachable s \<Longrightarrow> convert_resume fr p s = (r, s') \<Longrightarrow> reachable s'"
| r_begin_p0: "reachable s \<Longrightarrow> convert_begin_p0 dirname jobId b s = (x, s') \<Longrightarrow> reachable s'"
| r_resume_p0: "reachable s \<Longrightarrow> convert_resume_p0 fr p s = (r, s') \<Longrightarrow> reachable s'"
| r_write: "reachable s \<Longrightarrow> reachable (s\<lparr>files := insert p (files s)\<rparr>)"
| r_data: "reachable s \<Longrightarrow> on_data half_up jobId chunk s = Inr s' \<Longrightarrow> reachable s'"
| r_exit: "reachable s \<Longrightarrow> on_exit code jobId tin s = Inr s' \<Longrightarrow> reachable s'"
| r_timer: "reachable s \<Longrightarrow> t \<in> set (timers s) \<Longrightarrow> reachable (timer_fire t s)"
| r_close: "reachable s \<Longrightarrow> reachable (stream_close ident p s)"

subsection \<open>What the specification says, and a running example\<close>

text \<open>
  The percent estimate in the specification's words: the reported value divided by 60,000
  (to the nearest integer, as in its example) and clamped to the range from 0 to 100.
\<close>

definition spec_percent :: "int \<Rightarrow> int" where
  "spec_percent v = max 0 (min 100 ((v + 30000) div 60000))"

text \<open>The specification's range of \<^verbatim>\<open>progress\<close>: an integer from 0 to 100.\<close>

fun in_percent_range :: "jsnum \<Rightarrow> bool" where
  "in_percent_range NaN = False"
| "in_percent_range (Num n) = (0 \<le> n \<and> n \<le> 100)"

text \<open>Two separator characters side by side.\<close>

fun adjacent_seps :: "string \<Rightarrow> bool" where
  "adjacent_seps (a # b # r) = ((a = CHR ''_'' \<and> b = CHR ''_'') \<or> adjacent_seps (b # r))"
| "adjacent_seps r = False"

text \<open>What the two replacements do to one character, and the characters they can produce.\<close>

definition sanitize_char :: "char \<Rightarrow> char" where
  "sanitize_char c = (if is_alnum c then lower_char c else CHR ''_'')"

definition name_chars :: "char set" where
  "name_chars = set ''abcdefghijklmnopqrstuvwxyz0123456789_''"

text \<open>What the code does keep of the range: a stored progress is \<open>NaN\<close> or at most 100.\<close>

fun capped :: "jsnum \<Rightarrow> bool" where
  "capped NaN = True"
| "capped (Num n) = (n \<le> 100)"

definition progress_capped :: "state \<Rightarrow> bool" where
  "progress_capped s = (\<forall>ident j. JOBS s ident = Some j \<longrightarrow> capped (job_progress j))"

text \<open>An instance of \<open>half_up\<close> for the examples, none of which is at a half.\<close>

definition half_goes_up :: "int \<Rightarrow> bool" where
  "half_goes_up ms = True"

text \<open>
  The specification's first scenario, \<^verbatim>\<open>{contentId:"abc123", format:"720p", type:"video"}\<close>:
  \<open>state1\<close> is the server of \<^verbatim>\<open>src/server.js\<close> after this request with a successful fetch,
  \<open>state2\<close> the same once \<^verbatim>\<open>ffmpeg\<close> has written its output file.
\<close>

definition body1 :: body where
  "body1 = \<lparr>req_id = ''abc123'', req_format = ''720p'', req_type = ''video''\<rparr>"

definition state1 :: state where
  "state1 = snd (convert_start ''/srv'' ''j1'' FetchOk body1 init)"

definition state2 :: state where
  "state2 = state1\<lparr>files := insert ''/srv/temp_j1.mp4'' (files state1)\<rparr>"

section \<open>Properties\<close>

subsection \<open>Evaluating the handlers\<close>

lemmas convert_defs = convert_start_def convert_begin_def convert_start_p0_def convert_begin_p0_def
  new_pending_def new_job_def new_timer_def
  outputExt_def resolve_format_def formatAliases_def formatList_def VALID_AUDIO_FORMATS_def
  VALID_VIDEO_FORMATS_def tempInput_def outFile_def path_join_def ffmpegArgs_def Let_def

lemmas sanitize_defs = baseName_def toLowerCase_def replace_non_alnum_def replace_underscores_def
  is_alnum_def lower_char_def

lemmas parse_defs = parseInt_def is_ws_def is_digit_def digit_val_def digits_val_def

lemmas line_defs = line_step_def startsWith_def round_pct_def half_goes_up_def

lemma baseName_abc123: "baseName ''abc123'' = ''yt_abc123''"
  by (simp add: sanitize_defs)

lemma state1_eq:
  "state1 = \<lparr>JOBS = [''j1'' \<mapsto> \<lparr>job_progress = Num 0, job_path = ''/srv/temp_j1.mp4'', job_done = False,
                  job_ext = ''mp4'', job_name = ''yt_abc123.mp4''\<rparr>],
             files = {''/srv/temp_j1_input.mkv''},
             timers = [\<lparr>timer_jobId = ''j1'', timer_outFile = ''/srv/temp_j1.mp4'',
                        timer_tempInput = ''/srv/temp_j1_input.mkv'', timer_delay = 600000\<rparr>],
             spawned = [[''-i'', ''/srv/temp_j1_input.mkv'', ''-f'', ''mp4'', ''-c:v'', ''libx264'',
                         ''-preset'', ''fast'', ''-crf'', ''23'', ''-c:a'', ''aac'', ''-b:a'', ''192k'',
                         ''-movflags'', ''+faststart'', ''-progress'', ''pipe:2'', ''/srv/temp_j1.mp4'']]\<rparr>"
  by (simp add: state1_def body1_def init_def convert_defs baseName_abc123 TTL_def)

lemma state1_job:
  "JOBS state1 ''j1'' = Some \<lparr>job_progress = Num 0, job_path = ''/srv/temp_j1.mp4'', job_done = False,
      job_ext = ''mp4'', job_name = ''yt_abc123.mp4''\<rparr>"
  by (simp add: state1_eq)

lemma state2_job:
  "JOBS state2 ''j1'' = Some \<lparr>job_progress = Num 0, job_path = ''/srv/temp_j1.mp4'', job_done = False,
      job_ext = ''mp4'', job_name = ''yt_abc123.mp4''\<rparr>"
  by (simp add: state2_def state1_eq)

lemma state2_files: "files state2 = {''/srv/temp_j1.mp4'', ''/srv/temp_j1_input.mkv''}"
  by (simp add: state2_def state1_eq)

subsection \<open>Splitting and parsing\<close>

lemma split_on_no_sep: "d \<notin> set w \<Longrightarrow> split_on d (w @ d # r) = w # split_on d r"
  by (induction w) (auto split: list.splits)

lemma split_on_none: "d \<notin> set w \<Longrightarrow> split_on d w = [w]"
  by (induction w) (auto split: list.splits)

lemma split_lines_one:
  assumes "CHR 0x0A \<notin> set w"
  shows "split_lines (w @ [CHR 0x0A]) = [chop_cr w, []]"
  using split_on_no_sep [OF assms, of "[]"] by (simp add: split_lines_def)

lemma digit10_props:
  assumes "is_digit 10 c"
  shows "\<not> is_ws c" "c \<noteq> CHR ''-''" "c \<noteq> CHR ''+''" "c \<noteq> CHR ''=''" "c \<noteq> CHR 0x0A"
    "c \<noteq> CHR ''x''" "c \<noteq> CHR ''X''" "c \<noteq> CHR 0x0D"
  using assms
  by (auto simp: is_digit_def digit_val_def is_ws_def Let_def split: if_splits)

lemma parseInt_decimal:
  assumes "ds \<noteq> []" "\<forall>c\<in>set ds. is_digit 10 c"
  shows "parseInt ds = Num (digits_val 10 ds)"
proof -
  obtain c r where ds: "ds = c # r" using assms(1) by (cases ds) auto
  have c: "is_digit 10 c" using assms(2) ds by simp
  have nohex: "\<not> (take 2 ds = ''0x'' \<or> take 2 ds = ''0X'')"
  proof (cases r)
    case Nil then show ?thesis using ds by simp
  next
    case (Cons c2 r2)
    then have "is_digit 10 c2" using assms(2) ds by simp
    then show ?thesis using ds Cons digit10_props(6,7)[of c2] by auto
  qed
  have tw: "takeWhile (is_digit 10) ds = ds" using assms(2) by (simp add: takeWhile_eq_all_conv)
  have dw: "dropWhile is_ws ds = ds" using ds digit10_props(1)[OF c] by simp
  have sign: "(case ds of c # r \<Rightarrow> if c = CHR ''-'' then (-1::int) else 1 | [] \<Rightarrow> 1) = 1"
    using ds digit10_props(2)[OF c] by simp
  have s1: "(case ds of c # r \<Rightarrow> if c = CHR ''-'' \<or> c = CHR ''+'' then r else ds | [] \<Rightarrow> ds) = ds"
    using ds digit10_props(2,3)[OF c] by simp
  show ?thesis
    unfolding parseInt_def Let_def dw sign s1
    using nohex assms(1) by (simp add: tw)
qed

text \<open>\<open>round_pct\<close> is a nearest integer to \<open>v / 600\<close>, whichever way a half goes.\<close>

lemma round_pct_nearest:
  "600 * round_pct half_up v - 300 \<le> v \<and> v \<le> 600 * round_pct half_up v + 300"
proof -
  define q where "q = (v * 100) div 60000"
  define r where "r = (v * 100) mod 60000"
  have eq: "v * 100 = 60000 * q + r"
    unfolding q_def r_def by (rule mult_div_mod_eq [symmetric])
  have r0: "0 \<le> r" and r1: "r < 60000" unfolding r_def by simp_all
  have rp: "round_pct half_up v = (if r < 30000 then q else if 30000 < r then q + 1
              else if half_up v then q + 1 else q)"
    unfolding round_pct_def Let_def q_def r_def by simp
  show ?thesis unfolding rp using eq r0 r1 by (auto split: if_splits)
qed

lemma line_step_empty: "line_step half_up j [] = j"
  by (simp add: line_step_def startsWith_def)

lemma line_step_out_time:
  assumes "ds \<noteq> []" "\<forall>c\<in>set ds. is_digit 10 c"
  shows "line_step half_up j (''out_time_ms='' @ ds)
       = j\<lparr>job_progress := Num (min 100 (round_pct half_up (digits_val 10 ds)))\<rparr>"
proof -
  have noeq: "CHR ''='' \<notin> set ds" using assms(2) digit10_props(4) by blast
  have sp: "split_on (CHR ''='') (''out_time_ms='' @ ds) = [''out_time_ms'', ds]"
    using split_on_no_sep [of "CHR ''=''" "''out_time_ms''" ds] split_on_none [OF noeq] by simp
  have el: "element (split_on (CHR ''='') (''out_time_ms='' @ ds)) 1 = Some ds"
    unfolding sp by simp
  have st: "startsWith (''out_time_ms='' @ ds) ''out_time_ms=''"
    by (simp add: startsWith_def)
  have ne: "\<not> startsWith (''out_time_ms='' @ ds) ''progress=end''"
    by (simp add: startsWith_def)
  show ?thesis
    unfolding line_step_def Let_def el
    using st ne parseInt_decimal [OF assms] by simp
qed

subsection \<open>The upper bound of progress in every reachable state\<close>

lemma capped_estimate: "capped (estimate half_up x)"
  by (cases x) simp_all

lemma capped_line_step:
  "capped (job_progress j) \<Longrightarrow> capped (job_progress (line_step half_up j line))"
  by (simp add: line_step_def capped_estimate)

lemma capped_lines:
  "capped (job_progress j) \<Longrightarrow> capped (job_progress (foldl (line_step half_up) j lines))"
  by (induction lines arbitrary: j) (simp_all add: capped_line_step)

lemma capped_begin:
  assumes "progress_capped s" "convert_begin dirname jobId b s = (x, s')"
  shows "progress_capped s'"
  using assms
  by (auto simp: progress_capped_def convert_begin_def new_job_def Let_def split: if_splits)

lemma capped_begin_p0:
  assumes "progress_capped s" "convert_begin_p0 dirname jobId b s = (x, s')"
  shows "progress_capped s'"
  using assms
  by (auto simp: progress_capped_def convert_begin_p0_def new_job_def Let_def split: if_splits)

lemma capped_resume:
  assumes "progress_capped s" "convert_resume fr p s = (r, s')"
  shows "progress_capped s'"
  using assms by (cases fr) (auto simp: progress_capped_def)

lemma capped_resume_p0:
  assumes "progress_capped s" "convert_resume_p0 fr p s = (r, s')"
  shows "progress_capped s'"
  using assms by (cases fr) (auto simp: progress_capped_def Let_def)

lemma capped_data:
  assumes "progress_capped s" "on_data half_up jobId chunk s = Inr s'"
  shows "progress_capped s'"
  using assms
  by (auto simp: progress_capped_def on_data_def Let_def capped_lines split: option.splits if_splits)

lemma capped_exit:
  assumes "progress_capped s" "on_exit code jobId tin s = Inr s'"
  shows "progress_capped s'"
  using assms
  by (auto simp: progress_capped_def on_exit_def split: option.splits if_splits)

lemma capped_timer: "progress_capped s \<Longrightarrow> progress_capped (timer_fire t s)"
  by (auto simp: progress_capped_def timer_fire_def split: if_splits)

lemma capped_close: "progress_capped s \<Longrightarrow> progress_capped (stream_close ident p s)"
  by (auto simp: progress_capped_def stream_close_def split: if_splits)

lemma reachable_capped: "reachable s \<Longrightarrow> progress_capped s"
proof (induction rule: reachable.induct)
  case r_init
  show ?case by (simp add: progress_capped_def init_def)
next
  case (r_write s p)
  then show ?case by (simp add: progress_capped_def)
qed (blast intro: capped_begin capped_begin_p0 capped_resume capped_resume_p0 capped_data
      capped_exit capped_timer capped_close)+

lemma ge100_capped: "capped x \<Longrightarrow> ge100 x = (x = Num 100)"
  by (cases x) auto

lemma reachable_convert_start:
  assumes r: "reachable s"
  shows "reachable (snd (convert_start dirname jobId fr b s))"
proof -
  obtain x s1 where b: "convert_begin dirname jobId b s = (x, s1)"
    by (cases "convert_begin dirname jobId b s")
  have r1: "reachable s1" using r_begin [OF r b] .
  show ?thesis
  proof (cases x)
    case (Inl resp)
    then show ?thesis using b r1 by (simp add: convert_start_def)
  next
    case (Inr p)
    have r2: "reachable (downloader fr (p_tempInput p) s1)"
      using r1 by (cases fr) (auto intro: r_write)
    obtain r' s3 where c: "convert_resume fr p (downloader fr (p_tempInput p) s1) = (r', s3)"
      by (cases "convert_resume fr p (downloader fr (p_tempInput p) s1)")
    have "reachable s3" using r_resume [OF r2 c] .
    then show ?thesis using b Inr c by (simp add: convert_start_def)
  qed
qed

lemma reachable_state2: "reachable state2"
  unfolding state2_def state1_def
  by (intro r_write reachable_convert_start r_init)

subsection \<open>The characters of a sanitized name\<close>

lemma alnum_enum:
  assumes "is_alnum c"
  shows "c \<in> set ''0123456789ABCDEFGHIJKLMNOPQRSTUVWXYZabcdefghijklmnopqrstuvwxyz''"
proof -
  define n where "n = (of_char c :: nat)"
  have c: "c = char_of n" by (simp add: n_def)
  have "n \<in> {48..57} \<union> {65..90} \<union> {97..122}"
    using assms by (auto simp: is_alnum_def Let_def n_def)
  then have "n \<in> set ([48..<58] @ [65..<91] @ [97..<123])"
    unfolding set_append set_upt by auto
  then have "char_of n \<in> set (map char_of ([48..<58] @ [65..<91] @ [97..<123]))"
    unfolding set_map by (rule imageI)
  also have "map char_of ([48..<58] @ [65..<91] @ [97..<123] :: nat list)
      = ''0123456789ABCDEFGHIJKLMNOPQRSTUVWXYZabcdefghijklmnopqrstuvwxyz''"
    by code_simp
  finally show ?thesis using c by simp
qed

lemma lower_alnum: "is_alnum c \<Longrightarrow> lower_char c \<in> name_chars"
proof -
  assume "is_alnum c"
  then have "c \<in> set ''0123456789ABCDEFGHIJKLMNOPQRSTUVWXYZabcdefghijklmnopqrstuvwxyz''"
    by (rule alnum_enum)
  moreover have "\<forall>c \<in> set ''0123456789ABCDEFGHIJKLMNOPQRSTUVWXYZabcdefghijklmnopqrstuvwxyz''.
      lower_char c \<in> name_chars"
    by code_simp
  ultimately show ?thesis by blast
qed

lemma sanitize_char_in: "sanitize_char c \<in> name_chars"
  using lower_alnum [of c] by (simp add: sanitize_char_def name_chars_def)

lemma sanitize_map: "toLowerCase (replace_non_alnum s) = map sanitize_char s"
proof -
  have "lower_char (CHR ''_'') = CHR ''_''" by (simp add: lower_char_def)
  then show ?thesis
    by (simp add: toLowerCase_def replace_non_alnum_def sanitize_char_def)
qed

section \<open>The claims\<close>

subsection \<open>C1: a failed fetch\<close>

text \<open>
  C1, as stated, fails: after a request whose fetch fails has been answered with status
  500, the registry still holds the entry of that job id. In both versions the entry is
  written before the downloader is started and \<^verbatim>\<open>catch\<close> does not remove it.
\<close>

theorem fetch_failure_entry_counterexample:
  "fst (convert_start ''/srv'' ''j1'' (FetchFailed False) body1 init) = Error 500 ''Failed to convert video''
   \<and> JOBS (snd (convert_start ''/srv'' ''j1'' (FetchFailed False) body1 init)) ''j1'' \<noteq> None
   \<and> fst (convert_start_p0 ''/srv'' ''j1'' (FetchFailed False) body1 init) = Error 500 ''Failed to convert video''
   \<and> JOBS (snd (convert_start_p0 ''/srv'' ''j1'' (FetchFailed False) body1 init)) ''j1'' \<noteq> None"
  by (simp add: body1_def init_def convert_defs)

text \<open>
  In \<^verbatim>\<open>src/server.js\<close> the timer is armed before the fetch and can fire while the handler
  waits: the request is then answered with status 500 when the entry is already gone.
\<close>

lemma fetch_failure_after_expiry:
  "fst (convert_resume (FetchFailed False) (new_pending ''/srv'' ''j1'' body1)
         (timer_fire (new_timer ''j1'' ''/srv/temp_j1.mp4'' ''/srv/temp_j1_input.mkv'')
           (snd (convert_begin ''/srv'' ''j1'' body1 init))))
     = Error 500 ''Failed to convert video''
   \<and> JOBS (snd (convert_resume (FetchFailed False) (new_pending ''/srv'' ''j1'' body1)
         (timer_fire (new_timer ''j1'' ''/srv/temp_j1.mp4'' ''/srv/temp_j1_input.mkv'')
           (snd (convert_begin ''/srv'' ''j1'' body1 init))))) ''j1'' = None"
  by (simp add: body1_def init_def convert_defs timer_fire_def)

text \<open>
  C1, amended: a conversion request with a supported format writes the registry entry of
  its job before the fetch, with progress 0 and \<^verbatim>\<open>done\<close> false, and touches no file. If the
  fetch then fails, the request is answered with status 500 and the handler changes
  nothing more: whatever the state is at the moment the fetch fails, it is the state after
  the response. So no transcoder is spawned, no registry mutation makes the job appear
  progressing, and the handler removes neither the entry nor any file. This holds in both
  versions of the handler.
\<close>

theorem fetch_failure_keeps_entry:
  assumes "resolve_format (req_format b) \<in> set (formatList (req_type b))"
  shows "\<exists>p s1 s1'. convert_begin dirname jobId b s = (Inr p, s1)
           \<and> convert_begin_p0 dirname jobId b s = (Inr p, s1')
           \<and> JOBS s1 = (JOBS s)(jobId \<mapsto> new_job dirname jobId b)
           \<and> JOBS s1' = (JOBS s)(jobId \<mapsto> new_job dirname jobId b)
           \<and> job_progress (new_job dirname jobId b) = Num 0
           \<and> \<not> job_done (new_job dirname jobId b)
           \<and> files s1 = files s \<and> files s1' = files s
           \<and> spawned s1 = spawned s \<and> spawned s1' = spawned s
           \<and> convert_resume (FetchFailed left) p s2 = (Error 500 ''Failed to convert video'', s2)
           \<and> convert_resume_p0 (FetchFailed left) p s2 = (Error 500 ''Failed to convert video'', s2)"
  using assms
  by (simp add: convert_begin_def convert_begin_p0_def new_job_def Let_def)

theorem fetch_failure_keeps_entry_witness:
  "resolve_format (req_format body1) \<in> set (formatList (req_type body1))
   \<and> (\<exists>p s1. convert_begin ''/srv'' ''j1'' body1 init = (Inr p, s1)
         \<and> JOBS s1 = [''j1'' \<mapsto> new_job ''/srv'' ''j1'' body1]
         \<and> files s1 = {} \<and> spawned s1 = []
         \<and> convert_resume (FetchFailed False) p s1 = (Error 500 ''Failed to convert video'', s1)
         \<and> convert_resume_p0 (FetchFailed True) p state2 = (Error 500 ''Failed to convert video'', state2))
   \<and> job_progress (new_job ''/srv'' ''j1'' body1) = Num 0
   \<and> \<not> job_done (new_job ''/srv'' ''j1'' body1)"
proof -
  have h: "resolve_format (req_format body1) \<in> set (formatList (req_type body1))"
    by (simp add: body1_def resolve_format_def formatAliases_def formatList_def VALID_VIDEO_FORMATS_def)
  obtain p s1 where
    b: "convert_begin ''/srv'' ''j1'' body1 init = (Inr p, s1)"
    and j: "JOBS s1 = (JOBS init)(''j1'' \<mapsto> new_job ''/srv'' ''j1'' body1)"
    and f: "files s1 = files init" and sp: "spawned s1 = spawned init"
    and n: "job_progress (new_job ''/srv'' ''j1'' body1) = Num 0"
      "\<not> job_done (new_job ''/srv'' ''j1'' body1)"
    using fetch_failure_keeps_entry [OF h, of "''/srv''" "''j1''" init] by blast
  have r1: "convert_resume (FetchFailed False) p s1 = (Error 500 ''Failed to convert video'', s1)"
    by simp
  have r2: "convert_resume_p0 (FetchFailed True) p state2 = (Error 500 ''Failed to convert video'', state2)"
    by simp
  show ?thesis
    using h b j f sp n r1 r2 by (simp add: init_def)
qed

subsection \<open>C2: the percent estimate\<close>

text \<open>
  C2, as stated, fails: for the line \<^verbatim>\<open>out_time_ms=60000\<close> the stored estimate is 100, while
  the value divided by 60,000 and clamped is 1. The code multiplies the quotient by 100.
\<close>

theorem out_time_estimate_counterexample:
  "progress ''j1'' (projr (on_data half_goes_up ''j1'' (''out_time_ms=60000'' @ [CHR 0x0A]) state1))
     = Progress (Num 100) False
   \<and> Num 100 \<noteq> Num (spec_percent 60000)"
proof -
  have p: "parseInt ''60000'' = Num 60000" by (simp add: parse_defs)
  show ?thesis
    by (simp add: on_data_def split_lines_def chop_cr_def state1_job progress_def line_defs p
        spec_percent_def)
qed

text \<open>
  C2, amended: for every progress line \<^verbatim>\<open>out_time_ms=<v>\<close> with \<open>v\<close> a run of decimal
  digits, received by a job that is in the registry, the stored estimate is \<open>v\<close> divided
  by 600 (that is \<open>v / 60000 * 100\<close>), to a nearest integer, and capped at 100. For the
  line \<^verbatim>\<open>out_time_ms=30000000\<close> it is 100.
\<close>

theorem out_time_estimate:
  assumes "JOBS s jobId = Some j" and "ds \<noteq> []" and "\<forall>c\<in>set ds. is_digit 10 c"
  shows "\<exists>s' j'. on_data half_up jobId (''out_time_ms='' @ ds @ [CHR 0x0A]) s = Inr s'
           \<and> JOBS s' jobId = Some j'
           \<and> job_progress j' = Num (min 100 (round_pct half_up (digits_val 10 ds)))
           \<and> 600 * round_pct half_up (digits_val 10 ds) - 300 \<le> digits_val 10 ds
           \<and> digits_val 10 ds \<le> 600 * round_pct half_up (digits_val 10 ds) + 300"
proof -
  have nolf: "CHR 0x0A \<notin> set (''out_time_ms='' @ ds)"
    using assms(3) digit10_props(5) by auto
  have nocr: "chop_cr (''out_time_ms='' @ ds) = ''out_time_ms='' @ ds"
  proof -
    have "last ds \<in> set ds" using assms(2) by simp
    then have "last ds \<noteq> CHR 0x0D" using assms(3) digit10_props(8) by blast
    then show ?thesis using assms(2) by (simp add: chop_cr_def)
  qed
  have lines: "split_lines (''out_time_ms='' @ ds @ [CHR 0x0A]) = [''out_time_ms='' @ ds, []]"
    using split_lines_one [OF nolf] nocr by simp
  show ?thesis
    unfolding on_data_def Let_def lines
    using assms(1) round_pct_nearest [of half_up "digits_val 10 ds"]
      line_step_out_time [OF assms(2,3), of half_up j]
    by (simp add: line_step_empty)
qed

theorem out_time_estimate_witness:
  "JOBS state1 ''j1'' \<noteq> None \<and> ''30000000'' \<noteq> [] \<and> list_all (is_digit 10) ''30000000''
   \<and> (\<exists>s' j'. on_data half_goes_up ''j1'' (''out_time_ms=30000000'' @ [CHR 0x0A]) state1 = Inr s'
         \<and> JOBS s' ''j1'' = Some j' \<and> job_progress j' = Num 100)"
proof -
  have d: "\<forall>c\<in>set ''30000000''. is_digit 10 c"
    by (simp add: is_digit_def digit_val_def)
  have n: "''30000000'' \<noteq> []" by simp
  have v: "digits_val 10 ''30000000'' = 30000000" by (simp add: digits_val_def digit_val_def)
  have r: "round_pct half_goes_up 30000000 = 50000" by (simp add: round_pct_def)
  have d': "list_all (is_digit 10) ''30000000''"
    using d unfolding list_all_iff .
  show ?thesis
    using d' out_time_estimate [OF state1_job n d, of half_goes_up]
    by (simp add: state1_job v r)
qed

subsection \<open>C3: the expiry timer\<close>

text \<open>
  In \<^verbatim>\<open>src/server.js\<close> the timer is armed with the registry entry, before the fetch, with a
  delay of 600000 milliseconds, and neither outcome of the fetch disarms it. When a timer
  fires, in either version, the entry of its job is gone and neither of its two paths is
  on disk, whatever the entry held.
\<close>

lemma convert_begin_arms_timer:
  assumes "resolve_format (req_format b) \<in> set (formatList (req_type b))"
  shows "\<exists>p s1. convert_begin dirname jobId b s = (Inr p, s1)
           \<and> timers s1 = timers s @ [new_timer jobId (p_outFile p) (p_tempInput p)]
           \<and> timer_delay (new_timer jobId (p_outFile p) (p_tempInput p)) = 600000
           \<and> timers (snd (convert_resume fr p s2)) = timers s2"
  using assms by (cases fr) (simp_all add: convert_begin_def Let_def new_timer_def TTL_def)

lemma timer_fire_reclaims:
  "JOBS (timer_fire t s) (timer_jobId t) = None
   \<and> timer_outFile t \<notin> files (timer_fire t s)
   \<and> timer_tempInput t \<notin> files (timer_fire t s)"
  by (simp add: timer_fire_def unlink_if_exists_def)

text \<open>
  C3 is not met by \<^verbatim>\<open>src/unnamed/part_000\<close>, where \<^verbatim>\<open>setTimeout\<close> stands behind the spawn inside
  \<^verbatim>\<open>try\<close>: a request whose fetch fails is answered with status 500, no timer is armed, and
  the entry stays in the registry, answering progress polls, with nothing left to evict
  it. The same request in \<^verbatim>\<open>src/server.js\<close> leaves the timer armed.
\<close>

theorem expiry_timer_missing_p0:
  "fst (convert_start_p0 ''/srv'' ''j1'' (FetchFailed False) body1 init) = Error 500 ''Failed to convert video''
   \<and> timers (snd (convert_start_p0 ''/srv'' ''j1'' (FetchFailed False) body1 init)) = []
   \<and> progress ''j1'' (snd (convert_start_p0 ''/srv'' ''j1'' (FetchFailed False) body1 init)) = Progress (Num 0) False
   \<and> timers (snd (convert_start ''/srv'' ''j1'' (FetchFailed False) body1 init))
       = [\<lparr>timer_jobId = ''j1'', timer_outFile = ''/srv/temp_j1.mp4'',
           timer_tempInput = ''/srv/temp_j1_input.mkv'', timer_delay = 600000\<rparr>]"
  by (simp add: body1_def init_def convert_defs progress_def TTL_def)

subsection \<open>C4: readiness\<close>

text \<open>
  C4: in every state the server can reach, for every job id present in the registry, the
  progress endpoint answers with the job's progress and with \<^verbatim>\<open>ready\<close> true exactly when the
  progress equals 100, the \<^verbatim>\<open>done\<close> flag is set and the output file exists on disk. The code
  tests \<^verbatim>\<open>progress >= 100\<close>; no reachable state holds a progress above 100.
\<close>

theorem ready_iff:
  assumes "reachable s" and "JOBS s ident = Some j"
  shows "progress ident s =
           Progress (job_progress j) (job_progress j = Num 100 \<and> job_done j \<and> job_path j \<in> files s)"
proof -
  have "capped (job_progress j)"
    using reachable_capped [OF assms(1)] assms(2) by (simp add: progress_capped_def)
  then show ?thesis
    using assms(2) by (simp add: progress_def ge100_capped)
qed

theorem ready_iff_witness:
  "reachable (projr (on_exit (Some 0) ''j1'' ''/srv/temp_j1_input.mkv'' state2))
   \<and> JOBS (projr (on_exit (Some 0) ''j1'' ''/srv/temp_j1_input.mkv'' state2)) ''j1'' \<noteq> None
   \<and> progress ''j1'' (projr (on_exit (Some 0) ''j1'' ''/srv/temp_j1_input.mkv'' state2)) = Progress (Num 100) True
   \<and> progress ''j1'' (projr (on_exit (Some 0) ''j1'' ''/srv/temp_j1_input.mkv'' state1)) = Progress (Num 100) False"
proof -
  define j' where "j' = \<lparr>job_progress = Num 100, job_path = ''/srv/temp_j1.mp4'', job_done = True,
      job_ext = ''mp4'', job_name = ''yt_abc123.mp4''\<rparr>"
  define s3 where "s3 = state2\<lparr>JOBS := (JOBS state2)(''j1'' \<mapsto> j'), files := files state2 - {''/srv/temp_j1_input.mkv''}\<rparr>"
  define s4 where "s4 = state1\<lparr>JOBS := (JOBS state1)(''j1'' \<mapsto> j'), files := files state1 - {''/srv/temp_j1_input.mkv''}\<rparr>"
  have e: "on_exit (Some 0) ''j1'' ''/srv/temp_j1_input.mkv'' state2 = Inr s3"
    by (simp add: on_exit_def state2_job unlink_def s3_def j'_def)
  have e4: "on_exit (Some 0) ''j1'' ''/srv/temp_j1_input.mkv'' state1 = Inr s4"
    by (simp add: on_exit_def state1_job unlink_def s4_def j'_def)
  have r: "reachable s3" using r_exit [OF reachable_state2 e] .
  have "reachable state1" unfolding state1_def by (intro reachable_convert_start r_init)
  then have r4: "reachable s4" using r_exit [OF _ e4] by blast
  have j: "JOBS s3 ''j1'' = Some j'" by (simp add: s3_def)
  have j4: "JOBS s4 ''j1'' = Some j'" by (simp add: s4_def)
  have a: "progress ''j1'' s3 = Progress (Num 100) True"
    using ready_iff [OF r j] by (simp add: j'_def s3_def state2_files)
  have b: "progress ''j1'' s4 = Progress (Num 100) False"
    using ready_iff [OF r4 j4] by (simp add: j'_def s4_def state1_eq)
  show ?thesis
    unfolding e e4 using r j a b by simp
qed

subsection \<open>C5: the range of progress\<close>

text \<open>
  C5 is not met by the code: the estimate is capped at 100 by \<^verbatim>\<open>Math.min\<close> but has no lower
  bound and no guard against \<open>NaN\<close>. The line \<^verbatim>\<open>out_time_ms=-60000\<close> stores the progress
  \<open>-100\<close>, and the line \<^verbatim>\<open>out_time_ms=N/A\<close> stores \<open>NaN\<close>; the progress endpoint reports both.
\<close>

theorem progress_leaves_range:
  "progress ''j1'' (projr (on_data half_goes_up ''j1'' (''out_time_ms=-60000'' @ [CHR 0x0A]) state1))
     = Progress (Num (- 100)) False
   \<and> \<not> in_percent_range (Num (- 100))
   \<and> progress ''j1'' (projr (on_data half_goes_up ''j1'' (''out_time_ms=N/A'' @ [CHR 0x0A]) state1))
     = Progress NaN False
   \<and> \<not> in_percent_range NaN"
proof -
  have p1: "parseInt ''-60000'' = Num (- 60000)" by (simp add: parse_defs)
  have p2: "parseInt ''N/A'' = NaN" by (simp add: parse_defs)
  show ?thesis
    by (simp add: on_data_def split_lines_def chop_cr_def state1_job progress_def line_defs p1 p2)
qed

subsection \<open>C6: delivery is single-use\<close>

text \<open>
  Once the read stream of a delivery has closed, after its end or after an error of its
  own, the output file is deleted, the registry entry is evicted, and a further delivery
  request for the same job id is answered with status 404.
\<close>

lemma closed_stream_is_single_use:
  "JOBS (stream_close ident p s) ident = None
   \<and> p \<notin> files (stream_close ident p s)
   \<and> download ident (stream_close ident p s) = Error 404 ''Download not ready''"
  by (simp add: stream_close_def download_def unlink_def)

text \<open>
  C6 is not met by the code for a transfer that fails because the client closes the
  connection: the cleanup hangs on the \<^verbatim>\<open>'close'\<close> of the read stream alone, which this failure
  does not bring about. The output file stays on disk, the entry stays in the registry,
  and a second delivery request for the same job id is served the file again. After a
  finished transfer and after a read error the second request is answered with status 404.
\<close>

theorem delivery_repeats_after_abort:
  "download ''j1'' state2 = Attachment ''yt_abc123_mp4.mp4'' ''/srv/temp_j1.mp4''
   \<and> download ''j1'' (transfer_end ClientAborted ''j1'' ''/srv/temp_j1.mp4'' state2)
       = Attachment ''yt_abc123_mp4.mp4'' ''/srv/temp_j1.mp4''
   \<and> ''/srv/temp_j1.mp4'' \<in> files (transfer_end ClientAborted ''j1'' ''/srv/temp_j1.mp4'' state2)
   \<and> JOBS (transfer_end ClientAborted ''j1'' ''/srv/temp_j1.mp4'' state2) ''j1'' \<noteq> None
   \<and> download ''j1'' (transfer_end StreamFinished ''j1'' ''/srv/temp_j1.mp4'' state2)
       = Error 404 ''Download not ready''
   \<and> download ''j1'' (transfer_end StreamFailed ''j1'' ''/srv/temp_j1.mp4'' state2)
       = Error 404 ''Download not ready''"
proof -
  have d: "download ''j1'' state2 = Attachment ''yt_abc123_mp4.mp4'' ''/srv/temp_j1.mp4''"
    by (simp add: download_def state2_job state2_files download_filename_def sanitize_defs)
  have c: "download ''j1'' (stream_close ''j1'' ''/srv/temp_j1.mp4'' state2)
      = Error 404 ''Download not ready''"
    by (simp add: stream_close_def download_def)
  show ?thesis
    using d c by (simp add: state2_job state2_files)
qed

subsection \<open>C7: process exit\<close>

text \<open>
  C7: for every job whose registry entry is present, the exit of the transcoding process,
  with any exit code or none, sets the job's progress to 100 and its \<^verbatim>\<open>done\<close> flag to true
  and deletes the intermediate input file.
\<close>

theorem exit_completes_job:
  assumes "JOBS s jobId = Some j"
  shows "\<exists>s' j'. on_exit code jobId tin s = Inr s' \<and> JOBS s' jobId = Some j'
           \<and> job_progress j' = Num 100 \<and> job_done j' \<and> tin \<notin> files s'"
  using assms by (simp add: on_exit_def unlink_def)

theorem exit_completes_job_witness:
  "JOBS state1 ''j1'' \<noteq> None
   \<and> ''/srv/temp_j1_input.mkv'' \<in> files state1
   \<and> (\<exists>s' j'. on_exit (Some 1) ''j1'' ''/srv/temp_j1_input.mkv'' state1 = Inr s'
         \<and> JOBS s' ''j1'' = Some j' \<and> job_progress j' = Num 100 \<and> job_done j'
         \<and> ''/srv/temp_j1_input.mkv'' \<notin> files s')"
proof -
  have f: "''/srv/temp_j1_input.mkv'' \<in> files state1" by (simp add: state1_eq)
  show ?thesis
    using f exit_completes_job [OF state1_job, of "Some 1" "''/srv/temp_j1_input.mkv''"]
    by (simp add: state1_job)
qed

subsection \<open>C8: unsupported formats\<close>

text \<open>
  C8: for every format and type where the format, after aliasing, is not in the list for
  that type (audio: mp3, aac, m4a, opus, wav, flac; video: mp4, mkv, webm), the request is
  answered with status 400 and the state is unchanged: no registry entry, no file, no
  timer. This holds in both versions of the handler.
\<close>

theorem invalid_format_rejected:
  assumes "resolve_format (req_format b) \<notin> set (formatList (req_type b))"
  shows "convert_start dirname jobId fr b s = (Error 400 ''Unsupported output format'', s)
       \<and> convert_start_p0 dirname jobId fr b s = (Error 400 ''Unsupported output format'', s)
       \<and> set (formatList ''audio'') = {''mp3'', ''aac'', ''m4a'', ''opus'', ''wav'', ''flac''}
       \<and> set (formatList ''video'') = {''mp4'', ''mkv'', ''webm''}"
  using assms
  by (simp add: convert_start_def convert_start_p0_def convert_begin_def convert_begin_p0_def
      formatList_def VALID_AUDIO_FORMATS_def VALID_VIDEO_FORMATS_def)

theorem invalid_format_rejected_witness:
  "resolve_format ''mp3'' \<notin> set (formatList ''video'')
   \<and> convert_start ''/srv'' ''j1'' FetchOk \<lparr>req_id = ''abc123'', req_format = ''mp3'', req_type = ''video''\<rparr> init
       = (Error 400 ''Unsupported output format'', init)
   \<and> convert_start_p0 ''/srv'' ''j1'' FetchOk \<lparr>req_id = ''abc123'', req_format = ''mp3'', req_type = ''video''\<rparr> init
       = (Error 400 ''Unsupported output format'', init)"
proof -
  have h: "resolve_format (req_format \<lparr>req_id = ''abc123'', req_format = ''mp3'', req_type = ''video''\<rparr>)
      \<notin> set (formatList (req_type \<lparr>req_id = ''abc123'', req_format = ''mp3'', req_type = ''video''\<rparr>))"
    by (simp add: resolve_format_def formatAliases_def formatList_def VALID_VIDEO_FORMATS_def)
  from invalid_format_rejected [OF h, of "''/srv''" "''j1''" FetchOk init] h
  show ?thesis by simp
qed

subsection \<open>C9: the sanitized name\<close>

text \<open>
  C9, as stated, fails: for the content id \<^verbatim>\<open>a--b\<close> the base name is \<^verbatim>\<open>yt_a__b\<close> and the
  name sent on delivery is \<^verbatim>\<open>yt_a__b_mp4.mp4\<close>; both hold two separators side by side. The
  pattern replaces one character at a time.
\<close>

theorem sanitized_name_counterexample:
  "baseName ''a--b'' = ''yt_a__b''
   \<and> adjacent_seps (baseName ''a--b'')
   \<and> download ''j1''
        ((snd (convert_start ''/srv'' ''j1'' FetchOk
                 \<lparr>req_id = ''a--b'', req_format = ''mp4'', req_type = ''video''\<rparr> init))
           \<lparr>files := {''/srv/temp_j1.mp4''}\<rparr>)
       = Attachment ''yt_a__b_mp4.mp4'' ''/srv/temp_j1.mp4''
   \<and> adjacent_seps ''yt_a__b_mp4.mp4''"
proof -
  have b: "baseName ''a--b'' = ''yt_a__b''" by (simp add: sanitize_defs)
  show ?thesis
    unfolding b
    by (simp add: init_def convert_defs b download_def download_filename_def
        replace_underscores_def toLowerCase_def replace_non_alnum_def is_alnum_def lower_char_def)
qed

text \<open>
  C9, amended: the sanitized name is the source name with every character that is not an
  ASCII letter or digit replaced by one \<open>_\<close> each, and every letter in lower case; it has
  the length of the source name and holds lower-case letters, digits and \<open>_\<close> only. The
  name sent on delivery is the stored name, sanitized once more, followed by a dot and
  the extension.
\<close>

theorem sanitized_name_charwise:
  "baseName ident = map sanitize_char (''yt-'' @ ident)
   \<and> length (baseName ident) = length ident + 3
   \<and> set (baseName ident) \<subseteq> name_chars
   \<and> download_filename i j =
       map sanitize_char (if replace_underscores (job_name j) = [] then ''converted_'' @ i
                          else replace_underscores (job_name j))
       @ ''.'' @ (if job_ext j = [] then ''mp4'' else job_ext j)"
proof -
  have 1: "baseName ident = map sanitize_char (''yt-'' @ ident)"
    unfolding baseName_def by (rule sanitize_map)
  have 2: "length (baseName ident) = length ident + 3" unfolding 1 by simp
  have 3: "set (baseName ident) \<subseteq> name_chars" unfolding 1 using sanitize_char_in by auto
  have 4: "download_filename i j =
       map sanitize_char (if replace_underscores (job_name j) = [] then ''converted_'' @ i
                          else replace_underscores (job_name j))
       @ ''.'' @ (if job_ext j = [] then ''mp4'' else job_ext j)"
    unfolding download_filename_def Let_def sanitize_map by simp
  show ?thesis using 1 2 3 4 by blast
qed

theorem sanitized_name_charwise_witness:
  "baseName ''Ab c!'' = ''yt_ab_c_''
   \<and> length (baseName ''Ab c!'') = 8
   \<and> set (baseName ''Ab c!'') \<subseteq> name_chars
   \<and> download_filename ''j1''
        (new_job ''/srv'' ''j1'' \<lparr>req_id = ''Ab c!'', req_format = ''mp3'', req_type = ''audio''\<rparr>)
       = ''yt_ab_c__mp3.mp3''"
proof -
  define J where
    "J = new_job ''/srv'' ''j1'' \<lparr>req_id = ''Ab c!'', req_format = ''mp3'', req_type = ''audio''\<rparr>"
  note th = sanitized_name_charwise [of "''Ab c!''" "''j1''" J]
  have m: "map sanitize_char ''yt-Ab c!'' = ''yt_ab_c_''"
    by code_simp
  have m2: "map sanitize_char ''yt ab c .mp3'' = ''yt_ab_c__mp3''"
    by code_simp
  have b: "baseName ''Ab c!'' = ''yt_ab_c_''"
    using th m by simp
  have l: "length (baseName ''Ab c!'') = 8"
    unfolding b by simp
  have s: "set (baseName ''Ab c!'') \<subseteq> name_chars"
    using th by blast
  have je: "job_ext J = ''mp3''"
    by (simp add: J_def new_job_def outputExt_def resolve_format_def formatAliases_def Let_def)
  have jn: "job_name J = ''yt_ab_c_.mp3''"
    by (simp add: J_def new_job_def outputExt_def resolve_format_def formatAliases_def Let_def b)
  have ru: "replace_underscores (job_name J) = ''yt ab c .mp3''"
    unfolding jn by (simp add: replace_underscores_def)
  have d4: "download_filename ''j1'' J =
       map sanitize_char (if replace_underscores (job_name J) = [] then ''converted_'' @ ''j1''
                          else replace_underscores (job_name J))
       @ ''.'' @ (if job_ext J = [] then ''mp4'' else job_ext J)"
    using th by blast
  have i: "(if ''yt ab c .mp3'' = [] then ''converted_'' @ ''j1'' else ''yt ab c .mp3'') = ''yt ab c .mp3''"
    by simp
  have d: "download_filename ''j1'' J = ''yt_ab_c__mp3.mp3''"
    unfolding d4 ru je i m2 by simp
  show ?thesis
    using b l s d unfolding J_def by blast
qed

subsection \<open>C10: video jobs are mp4\<close>

text \<open>
  C10: for every job created with type \<^verbatim>\<open>video\<close> and a supported format, the stored
  extension, the extension of the output path and the container handed to the transcoder
  are \<^verbatim>\<open>mp4\<close>, whatever the format; a job of type \<^verbatim>\<open>audio\<close> has the requested format in all
  three places. This holds in both versions of the handler.
\<close>

theorem video_jobs_are_mp4:
  assumes "resolve_format (req_format b) \<in> set (formatList (req_type b))"
  shows "\<exists>s' s0 j. convert_start dirname jobId FetchOk b s = (JobStarted jobId, s')
           \<and> convert_start_p0 dirname jobId FetchOk b s = (JobStarted jobId, s0)
           \<and> JOBS s' jobId = Some j \<and> JOBS s0 jobId = Some j
           \<and> last (spawned s0) = last (spawned s')
           \<and> (req_type b = ''video'' \<longrightarrow>
                job_ext j = ''mp4''
                \<and> job_path j = dirname @ ''/temp_'' @ jobId @ ''.mp4''
                \<and> last (spawned s') =
                   [''-i'', dirname @ ''/temp_'' @ jobId @ ''_input.mkv'', ''-f'', ''mp4'',
                    ''-c:v'', ''libx264'', ''-preset'', ''fast'', ''-crf'', ''23'',
                    ''-c:a'', ''aac'', ''-b:a'', ''192k'', ''-movflags'', ''+faststart'',
                    ''-progress'', ''pipe:2'', dirname @ ''/temp_'' @ jobId @ ''.mp4''])
           \<and> (req_type b = ''audio'' \<longrightarrow>
                job_ext j = resolve_format (req_format b)
                \<and> job_path j = dirname @ ''/temp_'' @ jobId @ ''.'' @ resolve_format (req_format b)
                \<and> last (spawned s') =
                   [''-i'', dirname @ ''/temp_'' @ jobId @ ''_input.mkv'', ''-f'',
                    resolve_format (req_format b), ''-vn'', ''-ab'', ''192k'', ''-progress'', ''pipe:2'',
                    dirname @ ''/temp_'' @ jobId @ ''.'' @ resolve_format (req_format b)])"
  using assms
  by (simp add: convert_start_def convert_begin_def convert_start_p0_def convert_begin_p0_def
      new_pending_def new_job_def outputExt_def
      ffmpegArgs_def tempInput_def outFile_def path_join_def Let_def)

theorem video_jobs_are_mp4_witness:
  "resolve_format ''webm'' \<in> set (formatList ''video'')
   \<and> (\<exists>s' j. convert_start ''/srv'' ''j1'' FetchOk
                 \<lparr>req_id = ''abc123'', req_format = ''webm'', req_type = ''video''\<rparr> init = (JobStarted ''j1'', s')
         \<and> JOBS s' ''j1'' = Some j \<and> job_ext j = ''mp4'' \<and> job_path j = ''/srv/temp_j1.mp4''
         \<and> last (spawned s') =
              [''-i'', ''/srv/temp_j1_input.mkv'', ''-f'', ''mp4'',
               ''-c:v'', ''libx264'', ''-preset'', ''fast'', ''-crf'', ''23'',
               ''-c:a'', ''aac'', ''-b:a'', ''192k'', ''-movflags'', ''+faststart'',
               ''-progress'', ''pipe:2'', ''/srv/temp_j1.mp4''])"
proof -
  have h: "resolve_format (req_format \<lparr>req_id = ''abc123'', req_format = ''webm'', req_type = ''video''\<rparr>)
      \<in> set (formatList (req_type \<lparr>req_id = ''abc123'', req_format = ''webm'', req_type = ''video''\<rparr>))"
    by (simp add: resolve_format_def formatAliases_def formatList_def VALID_VIDEO_FORMATS_def)
  from video_jobs_are_mp4 [OF h, of "''/srv''" "''j1''" init] h
  show ?thesis by auto
qed

end
